theory Spec2Isabelle
  imports Main "HOL-Library.Word"
begin

section \<open>Schema metadata\<close>

text \<open>
  The embedding follows \<^verbatim>\<open>src/object-store/object_accessor.hpp\<close>. The header
  includes \<^verbatim>\<open>shared_realm.hpp\<close>, which is where \<^verbatim>\<open>Property\<close>,
  \<^verbatim>\<open>ObjectSchema\<close>, the realm and the storage engine live; of those only the
  members that the header reads or calls are modelled, under the names it uses.
\<close>

datatype PropertyType =
    PropertyTypeInt
  | PropertyTypeBool
  | PropertyTypeFloat
  | PropertyTypeDouble
  | PropertyTypeString
  | PropertyTypeData
  | PropertyTypeAny
  | PropertyTypeDate
  | PropertyTypeObject
  | PropertyTypeArray

record Property =
  name :: string
  type :: PropertyType
  object_type :: string
  table_column :: nat
  is_primary :: bool

record ObjectSchema =
  name :: string
  properties :: "Property list"
  primary_key :: string

text \<open>
  Modelled from the spec: \<^verbatim>\<open>ObjectSchema::property_for_name\<close> and
  \<^verbatim>\<open>ObjectSchema::primary_key_property\<close> are declared outside the header. The spec
  resolves a property name against the schema's ordered property list and calls the
  primary key an optional property of the schema; the header reads its name from the
  field \<^verbatim>\<open>primary_key\<close>. A null pointer is \<open>None\<close>.
\<close>

definition property_for_name :: "ObjectSchema \<Rightarrow> string \<Rightarrow> Property option" where
  "property_for_name schema prop_name =
     find (\<lambda>prop. Property.name prop = prop_name) (properties schema)"

definition primary_key_property :: "ObjectSchema \<Rightarrow> Property option" where
  "primary_key_property schema =
     property_for_name schema (primary_key schema)"

section \<open>Errors\<close>

text \<open>
  Every failure of the header is a \<^verbatim>\<open>std::runtime_error\<close>; the constructors are
  the throw sites, named as the spec names them, with the values the message is built
  from:
  \<^item> \<open>TransactionStateError\<close>: "Can only create objects within a transaction."
  \<^item> \<open>UnknownPropertyError p t\<close>: "Setting invalid property 'p' on object 't'."
  \<^item> \<open>DuplicateKeyError t\<close>: "Attempting to create an object of type 't' with an
    exising primary key value."
  \<^item> \<open>MissingValueError p\<close>: "Missing property value for property p"
  \<^item> \<open>UnsupportedTypeError\<close>: "'Any' type is unsupported" (thrown by \<^verbatim>\<open>to_mixed\<close>)
  \<^item> \<open>ConversionError m\<close>: whatever a platform's accessor throws.
\<close>

datatype error =
    TransactionStateError
  | UnknownPropertyError string string
  | DuplicateKeyError string
  | MissingValueError string
  | UnsupportedTypeError
  | ConversionError string

section \<open>Storage\<close>

text \<open>
  Modelled from the spec: the storage backend (table and row allocation, find-first by
  value, typed column writes, link-list mutation) is an external collaborator. A table is
  a row count and the cells of its rows, by row index and column index; the rows are
  the indices below the count. \<^verbatim>\<open>long long\<close>, \<^verbatim>\<open>float\<close>, \<^verbatim>\<open>double\<close> and
  \<^verbatim>\<open>DateTime\<close> are kept as their bit patterns, since the header only moves them.
  \<^verbatim>\<open>size_t\<close> row indices and counts are \<open>nat\<close>, and \<^verbatim>\<open>realm::not_found\<close> is
  \<open>None\<close>.
\<close>

datatype Cell =
    CellBool bool
  | CellInt "64 word"
  | CellFloat "32 word"
  | CellDouble "64 word"
  | CellString string
  | CellBinary string
  | CellDateTime "64 word"
  | CellLink "nat option"
  | CellLinkList "nat list"

type_synonym Cells = "nat \<Rightarrow> Cell"

record Table =
  empty_row :: Cells
  row_count :: nat
  rows :: "nat \<Rightarrow> Cells"

record Realm =
  is_in_transaction :: bool
  read_group :: "string \<Rightarrow> Table"

text \<open>A \<^verbatim>\<open>Row\<close> is a handle: the table it belongs to and its index there.\<close>

record Row =
  table :: string
  get_index :: nat

record Object =
  object_schema :: ObjectSchema
  row :: Row

definition table_for_object_type :: "Realm \<Rightarrow> string \<Rightarrow> Table" where
  "table_for_object_type realm type_name = read_group realm type_name"

text \<open>The first row, in index order, whose column holds exactly the value sought.\<close>

definition find_first_string :: "Table \<Rightarrow> nat \<Rightarrow> string \<Rightarrow> nat option" where
  "find_first_string t column v =
     find (\<lambda>i. rows t i column = CellString v) [0..<row_count t]"

definition find_first_int :: "Table \<Rightarrow> nat \<Rightarrow> 64 word \<Rightarrow> nat option" where
  "find_first_int t column v =
     find (\<lambda>i. rows t i column = CellInt v) [0..<row_count t]"

text \<open>A new row takes the next index and holds the table's empty cells.\<close>

definition add_empty_row :: "Realm \<Rightarrow> string \<Rightarrow> nat \<times> Realm" where
  "add_empty_row realm type_name =
     (let t = read_group realm type_name
      in (row_count t,
          realm\<lparr>read_group := (read_group realm)
            (type_name := t\<lparr>row_count := Suc (row_count t),
                             rows := (rows t)(row_count t := empty_row t)\<rparr>)\<rparr>))"

definition get_cell :: "Realm \<Rightarrow> Row \<Rightarrow> nat \<Rightarrow> Cell" where
  "get_cell realm r column = rows (read_group realm (table r)) (get_index r) column"

text \<open>
  A write through a row handle. The handles of the header come from
  \<^verbatim>\<open>table->get(row_index)\<close> with an index that \<^verbatim>\<open>find_first_*\<close> or
  \<^verbatim>\<open>add_empty_row\<close> has just returned, so they name a row of the table; the model
  does not check the index against the row count.
\<close>

definition set_cell :: "Realm \<Rightarrow> Row \<Rightarrow> nat \<Rightarrow> Cell \<Rightarrow> Realm" where
  "set_cell realm r column v =
     (let t = read_group realm (table r)
      in realm\<lparr>read_group := (read_group realm)
           (table r := t\<lparr>rows := (rows t)
              (get_index r := (rows t (get_index r))(column := v))\<rparr>)\<rparr>)"

definition set_bool :: "Realm \<Rightarrow> Row \<Rightarrow> nat \<Rightarrow> bool \<Rightarrow> Realm" where
  "set_bool realm r column v = set_cell realm r column (CellBool v)"

definition set_int :: "Realm \<Rightarrow> Row \<Rightarrow> nat \<Rightarrow> 64 word \<Rightarrow> Realm" where
  "set_int realm r column v = set_cell realm r column (CellInt v)"

definition set_float :: "Realm \<Rightarrow> Row \<Rightarrow> nat \<Rightarrow> 32 word \<Rightarrow> Realm" where
  "set_float realm r column v = set_cell realm r column (CellFloat v)"

definition set_double :: "Realm \<Rightarrow> Row \<Rightarrow> nat \<Rightarrow> 64 word \<Rightarrow> Realm" where
  "set_double realm r column v = set_cell realm r column (CellDouble v)"

definition set_string :: "Realm \<Rightarrow> Row \<Rightarrow> nat \<Rightarrow> string \<Rightarrow> Realm" where
  "set_string realm r column v = set_cell realm r column (CellString v)"

definition set_binary :: "Realm \<Rightarrow> Row \<Rightarrow> nat \<Rightarrow> string \<Rightarrow> Realm" where
  "set_binary realm r column v = set_cell realm r column (CellBinary v)"

definition set_datetime :: "Realm \<Rightarrow> Row \<Rightarrow> nat \<Rightarrow> 64 word \<Rightarrow> Realm" where
  "set_datetime realm r column v = set_cell realm r column (CellDateTime v)"

definition nullify_link :: "Realm \<Rightarrow> Row \<Rightarrow> nat \<Rightarrow> Realm" where
  "nullify_link realm r column = set_cell realm r column (CellLink None)"

definition set_link :: "Realm \<Rightarrow> Row \<Rightarrow> nat \<Rightarrow> nat \<Rightarrow> Realm" where
  "set_link realm r column target = set_cell realm r column (CellLink (Some target))"

text \<open>
  \<^verbatim>\<open>row.get_linklist(column)\<close> gives a view of the link collection stored in the
  column, not a copy: \<^verbatim>\<open>clear\<close> and \<^verbatim>\<open>add\<close> act on what the store holds when
  they are called. A column of another type holds no collection and reads as empty.
\<close>

definition get_linklist :: "Realm \<Rightarrow> Row \<Rightarrow> nat \<Rightarrow> nat list" where
  "get_linklist realm r column =
     (case get_cell realm r column of CellLinkList links \<Rightarrow> links | _ \<Rightarrow> [])"

definition link_view_clear :: "Realm \<Rightarrow> Row \<Rightarrow> nat \<Rightarrow> Realm" where
  "link_view_clear realm r column = set_cell realm r column (CellLinkList [])"

definition link_view_add :: "Realm \<Rightarrow> Row \<Rightarrow> nat \<Rightarrow> nat \<Rightarrow> Realm" where
  "link_view_add realm r column target =
     set_cell realm r column (CellLinkList (get_linklist realm r column @ [target]))"

section \<open>The accessor\<close>

text \<open>
  \<^verbatim>\<open>NativeAccessor<ValueType, ContextType>\<close> only declares its converters: each
  platform specialises them. The model takes them as a record of functions over the
  two type parameters. Any of them may throw, so each returns \<open>error + _\<close>;
  \<^verbatim>\<open>to_object_index\<close> is handed the realm and may create objects in it, so it also
  returns the realm it leaves behind, on failure too. The others are handed no realm: the
  spec makes each a pure function of its inputs and \<^verbatim>\<open>to_object_index\<close> the only one
  that writes.
\<close>

record ('v, 'c) NativeAccessor =
  dict_has_value_for_key :: "'c \<Rightarrow> 'v \<Rightarrow> string \<Rightarrow> error + bool"
  dict_value_for_key :: "'c \<Rightarrow> 'v \<Rightarrow> string \<Rightarrow> error + 'v"
  has_default_value_for_property :: "'c \<Rightarrow> ObjectSchema \<Rightarrow> string \<Rightarrow> error + bool"
  default_value_for_property :: "'c \<Rightarrow> ObjectSchema \<Rightarrow> string \<Rightarrow> error + 'v"
  to_bool :: "'c \<Rightarrow> 'v \<Rightarrow> error + bool"
  to_long :: "'c \<Rightarrow> 'v \<Rightarrow> error + 64 word"
  to_float :: "'c \<Rightarrow> 'v \<Rightarrow> error + 32 word"
  to_double :: "'c \<Rightarrow> 'v \<Rightarrow> error + 64 word"
  to_string :: "'c \<Rightarrow> 'v \<Rightarrow> error + string"
  to_datetime :: "'c \<Rightarrow> 'v \<Rightarrow> error + 64 word"
  is_null :: "'c \<Rightarrow> 'v \<Rightarrow> error + bool"
  to_object_index :: "'c \<Rightarrow> Realm \<Rightarrow> 'v \<Rightarrow> string \<Rightarrow> bool \<Rightarrow> (error + nat) \<times> Realm"
  array_size :: "'c \<Rightarrow> 'v \<Rightarrow> error + nat"
  array_value_at_index :: "'c \<Rightarrow> 'v \<Rightarrow> nat \<Rightarrow> error + 'v"

text \<open>The one converter the header defines itself: it throws for every value.\<close>

definition to_mixed :: "'c \<Rightarrow> 'v \<Rightarrow> error + Cell" where
  "to_mixed ctx val = Inl UnsupportedTypeError"

section \<open>The property writer\<close>

text \<open>
  A write that needs a converted value: the converter runs first, and the row is
  written only if it returns.
\<close>

definition write_converted ::
  "error + 'a \<Rightarrow> ('a \<Rightarrow> Realm) \<Rightarrow> Realm \<Rightarrow> (error + unit) \<times> Realm" where
  "write_converted converted write realm =
     (case converted of Inl e \<Rightarrow> (Inl e, realm) | Inr v \<Rightarrow> (Inr (), write v))"

text \<open>
  The loop of the \<^verbatim>\<open>PropertyTypeArray\<close> case:
  \<^verbatim>\<open>for (size_t i = 0; i < count; i++)\<close>, each round converting element \<open>i\<close>,
  resolving it and appending the link.
\<close>

function array_links ::
  "('v, 'c) NativeAccessor \<Rightarrow> 'c \<Rightarrow> Row \<Rightarrow> Property \<Rightarrow> 'v \<Rightarrow> bool \<Rightarrow> nat \<Rightarrow> nat \<Rightarrow> Realm
     \<Rightarrow> (error + unit) \<times> Realm" where
  "array_links acc ctx r property val try_update i count realm =
     (if i < count then
        (case array_value_at_index acc ctx val i of
           Inl e \<Rightarrow> (Inl e, realm)
         | Inr element \<Rightarrow>
            (case to_object_index acc ctx realm element (object_type property) try_update of
               (Inl e, realm') \<Rightarrow> (Inl e, realm')
             | (Inr target, realm') \<Rightarrow>
                 array_links acc ctx r property val try_update (Suc i) count
                   (link_view_add realm' r (table_column property) target)))
      else (Inr (), realm))"
  by pat_completeness auto
termination
  by (relation "measure (\<lambda>(acc, ctx, r, property, val, try_update, i, count, realm). count - i)") auto

declare array_links.simps [simp del]

definition set_property_value_impl ::
  "('v, 'c) NativeAccessor \<Rightarrow> 'c \<Rightarrow> Object \<Rightarrow> Property \<Rightarrow> 'v \<Rightarrow> bool \<Rightarrow> Realm
     \<Rightarrow> (error + unit) \<times> Realm" where
  "set_property_value_impl acc ctx object property val try_update realm =
     (let column = table_column property; r = row object in
      case type property of
        PropertyTypeBool \<Rightarrow>
          write_converted (to_bool acc ctx val) (set_bool realm r column) realm
      | PropertyTypeInt \<Rightarrow>
          write_converted (to_long acc ctx val) (set_int realm r column) realm
      | PropertyTypeFloat \<Rightarrow>
          write_converted (to_float acc ctx val) (set_float realm r column) realm
      | PropertyTypeDouble \<Rightarrow>
          write_converted (to_double acc ctx val) (set_double realm r column) realm
      | PropertyTypeString \<Rightarrow>
          write_converted (to_string acc ctx val) (set_string realm r column) realm
      | PropertyTypeData \<Rightarrow>
          write_converted (to_string acc ctx val) (set_binary realm r column) realm
      | PropertyTypeAny \<Rightarrow>
          write_converted (to_mixed ctx val) (set_cell realm r column) realm
      | PropertyTypeDate \<Rightarrow>
          write_converted (to_datetime acc ctx val) (set_datetime realm r column) realm
      | PropertyTypeObject \<Rightarrow>
          (case is_null acc ctx val of
             Inl e \<Rightarrow> (Inl e, realm)
           | Inr True \<Rightarrow> (Inr (), nullify_link realm r column)
           | Inr False \<Rightarrow>
              (case to_object_index acc ctx realm val (object_type property) try_update of
                 (Inl e, realm') \<Rightarrow> (Inl e, realm')
               | (Inr target, realm') \<Rightarrow> (Inr (), set_link realm' r column target)))
      | PropertyTypeArray \<Rightarrow>
          (let realm1 = link_view_clear realm r column in
           case array_size acc ctx val of
             Inl e \<Rightarrow> (Inl e, realm1)
           | Inr count \<Rightarrow> array_links acc ctx r property val try_update 0 count realm1))"

definition set_property_value ::
  "('v, 'c) NativeAccessor \<Rightarrow> 'c \<Rightarrow> Object \<Rightarrow> string \<Rightarrow> 'v \<Rightarrow> bool \<Rightarrow> Realm
     \<Rightarrow> (error + unit) \<times> Realm" where
  "set_property_value acc ctx object prop_name val try_update realm =
     (case property_for_name (object_schema object) prop_name of
        None \<Rightarrow>
          (Inl (UnknownPropertyError prop_name (ObjectSchema.name (object_schema object))), realm)
      | Some prop \<Rightarrow> set_property_value_impl acc ctx object prop val try_update realm)"

section \<open>The object materializer\<close>

text \<open>
  \<^verbatim>\<open>Object::create\<close>, lines 161 to 178: the search for an existing row. The
  result is the row index (\<open>None\<close> for \<^verbatim>\<open>realm::not_found\<close>) or the error thrown;
  nothing is written here.
\<close>

definition create_find_row ::
  "('v, 'c) NativeAccessor \<Rightarrow> 'c \<Rightarrow> Realm \<Rightarrow> ObjectSchema \<Rightarrow> 'v \<Rightarrow> bool \<Rightarrow> error + nat option" where
  "create_find_row acc ctx realm schema val try_update =
     (let t = table_for_object_type realm (ObjectSchema.name schema) in
      case primary_key_property schema of
        None \<Rightarrow> Inr None
      | Some primary_prop \<Rightarrow>
         (case dict_value_for_key acc ctx val (primary_key schema) of
            Inl e \<Rightarrow> Inl e
          | Inr primary_value \<Rightarrow>
             (case (if type primary_prop = PropertyTypeString
                    then (case to_string acc ctx primary_value of
                            Inl e \<Rightarrow> Inl e
                          | Inr s \<Rightarrow> Inr (find_first_string t (table_column primary_prop) s))
                    else (case to_long acc ctx primary_value of
                            Inl e \<Rightarrow> Inl e
                          | Inr n \<Rightarrow> Inr (find_first_int t (table_column primary_prop) n)))
              of
                Inl e \<Rightarrow> Inl e
              | Inr row_index \<Rightarrow>
                  if \<not> try_update \<and> row_index \<noteq> None
                  then Inl (DuplicateKeyError (ObjectSchema.name schema))
                  else Inr row_index)))"

text \<open>
  Lines 190 to 202: the body of the loop over \<^verbatim>\<open>object_schema.properties\<close>, for
  one property.
\<close>

definition create_populate_property ::
  "('v, 'c) NativeAccessor \<Rightarrow> 'c \<Rightarrow> Object \<Rightarrow> Property \<Rightarrow> 'v \<Rightarrow> bool \<Rightarrow> bool \<Rightarrow> Realm
     \<Rightarrow> (error + unit) \<times> Realm" where
  "create_populate_property acc ctx object prop val try_update created realm =
     (if created \<or> \<not> is_primary prop then
        (case dict_has_value_for_key acc ctx val (Property.name prop) of
           Inl e \<Rightarrow> (Inl e, realm)
         | Inr True \<Rightarrow>
            (case dict_value_for_key acc ctx val (Property.name prop) of
               Inl e \<Rightarrow> (Inl e, realm)
             | Inr v \<Rightarrow> set_property_value_impl acc ctx object prop v try_update realm)
         | Inr False \<Rightarrow>
            (if created then
               (case has_default_value_for_property acc ctx (object_schema object)
                       (Property.name prop) of
                  Inl e \<Rightarrow> (Inl e, realm)
                | Inr True \<Rightarrow>
                   (case default_value_for_property acc ctx (object_schema object)
                           (Property.name prop) of
                      Inl e \<Rightarrow> (Inl e, realm)
                    | Inr v \<Rightarrow> set_property_value_impl acc ctx object prop v try_update realm)
                | Inr False \<Rightarrow> (Inl (MissingValueError (Property.name prop)), realm))
             else (Inr (), realm)))
      else (Inr (), realm))"

text \<open>
  Lines 189 to 203: the loop, in declaration order. It stops at the first failure.
\<close>

fun create_populate ::
  "('v, 'c) NativeAccessor \<Rightarrow> 'c \<Rightarrow> Object \<Rightarrow> Property list \<Rightarrow> 'v \<Rightarrow> bool \<Rightarrow> bool \<Rightarrow> Realm
     \<Rightarrow> (error + unit) \<times> Realm" where
  "create_populate acc ctx object [] val try_update created realm = (Inr (), realm)"
| "create_populate acc ctx object (prop # props) val try_update created realm =
     (case create_populate_property acc ctx object prop val try_update created realm of
        (Inl e, realm') \<Rightarrow> (Inl e, realm')
      | (Inr u, realm') \<Rightarrow> create_populate acc ctx object props val try_update created realm')"

text \<open>
  Lines 187 to 204: the object on the row, populated and returned.
\<close>

definition create_object ::
  "('v, 'c) NativeAccessor \<Rightarrow> 'c \<Rightarrow> ObjectSchema \<Rightarrow> 'v \<Rightarrow> bool \<Rightarrow> bool \<Rightarrow> nat \<Rightarrow> Realm
     \<Rightarrow> (error + Object) \<times> Realm" where
  "create_object acc ctx schema val try_update created row_index realm =
     (let object = \<lparr>object_schema = schema,
                    row = \<lparr>table = ObjectSchema.name schema, get_index = row_index\<rparr>\<rparr>
      in case create_populate acc ctx object (properties schema) val try_update created realm of
           (Inl e, realm') \<Rightarrow> (Inl e, realm')
         | (Inr u, realm') \<Rightarrow> (Inr object, realm'))"

text \<open>
  \<^verbatim>\<open>Object::create\<close> as a whole: the transaction check, the search, the new row
  when none was found (lines 180 to 185), and the population.
\<close>

definition create ::
  "('v, 'c) NativeAccessor \<Rightarrow> 'c \<Rightarrow> Realm \<Rightarrow> ObjectSchema \<Rightarrow> 'v \<Rightarrow> bool
     \<Rightarrow> (error + Object) \<times> Realm" where
  "create acc ctx realm schema val try_update =
     (if \<not> is_in_transaction realm then (Inl TransactionStateError, realm)
      else
        case create_find_row acc ctx realm schema val try_update of
          Inl e \<Rightarrow> (Inl e, realm)
        | Inr None \<Rightarrow>
            (case add_empty_row realm (ObjectSchema.name schema) of
               (row_index, realm') \<Rightarrow>
                 create_object acc ctx schema val try_update True row_index realm')
        | Inr (Some row_index) \<Rightarrow>
            create_object acc ctx schema val try_update False row_index realm)"

section \<open>The resolutions of a run\<close>

text \<open>
  \<^verbatim>\<open>to_object_index\<close> is the one call through which a write can re-enter the store.
  To speak of the stores that a run of the writer or of \<open>create\<close> really passes, the
  functions below list the calls of \<^verbatim>\<open>to_object_index\<close> that the run makes, in order:
  for each call the store it was handed, the value it was asked to resolve, what it
  returned and the store it left. They follow the control flow of the functions above
  branch by branch and write nothing themselves.
\<close>

record 'v Resolution =
  store_before :: Realm
  resolved :: 'v
  outcome :: "error + nat"
  store_after :: Realm

function array_links_calls ::
  "('v, 'c) NativeAccessor \<Rightarrow> 'c \<Rightarrow> Row \<Rightarrow> Property \<Rightarrow> 'v \<Rightarrow> bool \<Rightarrow> nat \<Rightarrow> nat \<Rightarrow> Realm
     \<Rightarrow> 'v Resolution list" where
  "array_links_calls acc ctx r property val try_update i count realm =
     (if i < count then
        (case array_value_at_index acc ctx val i of
           Inl e \<Rightarrow> []
         | Inr element \<Rightarrow>
            (case to_object_index acc ctx realm element (object_type property) try_update of
               (Inl e, realm') \<Rightarrow>
                 [\<lparr>store_before = realm, resolved = element, outcome = Inl e,
                   store_after = realm'\<rparr>]
             | (Inr target, realm') \<Rightarrow>
                 \<lparr>store_before = realm, resolved = element, outcome = Inr target,
                  store_after = realm'\<rparr>
                 # array_links_calls acc ctx r property val try_update (Suc i) count
                     (link_view_add realm' r (table_column property) target)))
      else [])"
  by pat_completeness auto
termination
  by (relation "measure (\<lambda>(acc, ctx, r, property, val, try_update, i, count, realm). count - i)") auto

declare array_links_calls.simps [simp del]

definition set_property_value_impl_calls ::
  "('v, 'c) NativeAccessor \<Rightarrow> 'c \<Rightarrow> Object \<Rightarrow> Property \<Rightarrow> 'v \<Rightarrow> bool \<Rightarrow> Realm
     \<Rightarrow> 'v Resolution list" where
  "set_property_value_impl_calls acc ctx object property val try_update realm =
     (let column = table_column property; r = row object in
      case type property of
        PropertyTypeObject \<Rightarrow>
          (case is_null acc ctx val of
             Inr False \<Rightarrow>
              (case to_object_index acc ctx realm val (object_type property) try_update of
                 (res, realm') \<Rightarrow>
                   [\<lparr>store_before = realm, resolved = val, outcome = res,
                     store_after = realm'\<rparr>])
           | _ \<Rightarrow> [])
      | PropertyTypeArray \<Rightarrow>
          (case array_size acc ctx val of
             Inl e \<Rightarrow> []
           | Inr count \<Rightarrow>
               array_links_calls acc ctx r property val try_update 0 count
                 (link_view_clear realm r column))
      | _ \<Rightarrow> [])"

definition create_populate_property_calls ::
  "('v, 'c) NativeAccessor \<Rightarrow> 'c \<Rightarrow> Object \<Rightarrow> Property \<Rightarrow> 'v \<Rightarrow> bool \<Rightarrow> bool \<Rightarrow> Realm
     \<Rightarrow> 'v Resolution list" where
  "create_populate_property_calls acc ctx object prop val try_update created realm =
     (if created \<or> \<not> is_primary prop then
        (case dict_has_value_for_key acc ctx val (Property.name prop) of
           Inl e \<Rightarrow> []
         | Inr True \<Rightarrow>
            (case dict_value_for_key acc ctx val (Property.name prop) of
               Inl e \<Rightarrow> []
             | Inr v \<Rightarrow> set_property_value_impl_calls acc ctx object prop v try_update realm)
         | Inr False \<Rightarrow>
            (if created then
               (case has_default_value_for_property acc ctx (object_schema object)
                       (Property.name prop) of
                  Inr True \<Rightarrow>
                   (case default_value_for_property acc ctx (object_schema object)
                           (Property.name prop) of
                      Inl e \<Rightarrow> []
                    | Inr v \<Rightarrow>
                        set_property_value_impl_calls acc ctx object prop v try_update realm)
                | _ \<Rightarrow> [])
             else []))
      else [])"

fun create_populate_calls ::
  "('v, 'c) NativeAccessor \<Rightarrow> 'c \<Rightarrow> Object \<Rightarrow> Property list \<Rightarrow> 'v \<Rightarrow> bool \<Rightarrow> bool \<Rightarrow> Realm
     \<Rightarrow> 'v Resolution list" where
  "create_populate_calls acc ctx object [] val try_update created realm = []"
| "create_populate_calls acc ctx object (prop # props) val try_update created realm =
     create_populate_property_calls acc ctx object prop val try_update created realm
     @ (case create_populate_property acc ctx object prop val try_update created realm of
          (Inl e, realm') \<Rightarrow> []
        | (Inr u, realm') \<Rightarrow>
            create_populate_calls acc ctx object props val try_update created realm')"

definition create_object_calls ::
  "('v, 'c) NativeAccessor \<Rightarrow> 'c \<Rightarrow> ObjectSchema \<Rightarrow> 'v \<Rightarrow> bool \<Rightarrow> bool \<Rightarrow> nat \<Rightarrow> Realm
     \<Rightarrow> 'v Resolution list" where
  "create_object_calls acc ctx schema val try_update created row_index realm =
     create_populate_calls acc ctx
       \<lparr>object_schema = schema,
        row = \<lparr>table = ObjectSchema.name schema, get_index = row_index\<rparr>\<rparr>
       (properties schema) val try_update created realm"

definition create_calls ::
  "('v, 'c) NativeAccessor \<Rightarrow> 'c \<Rightarrow> Realm \<Rightarrow> ObjectSchema \<Rightarrow> 'v \<Rightarrow> bool \<Rightarrow> 'v Resolution list" where
  "create_calls acc ctx realm schema val try_update =
     (if \<not> is_in_transaction realm then []
      else
        case create_find_row acc ctx realm schema val try_update of
          Inl e \<Rightarrow> []
        | Inr None \<Rightarrow>
            (case add_empty_row realm (ObjectSchema.name schema) of
               (row_index, realm') \<Rightarrow>
                 create_object_calls acc ctx schema val try_update True row_index realm')
        | Inr (Some row_index) \<Rightarrow>
            create_object_calls acc ctx schema val try_update False row_index realm)"

text \<open>What a resolution changed in a quantity \<open>g\<close> of the store.\<close>

definition change :: "(Realm \<Rightarrow> int) \<Rightarrow> 'v Resolution \<Rightarrow> int" where
  "change g c = g (store_after c) - g (store_before c)"

section \<open>A front-end over tree-shaped values\<close>

text \<open>
  Modelled from the spec: no platform's \<^verbatim>\<open>NativeAccessor\<close> specialisation is in
  the header. This one follows the capability contract of the spec (section 4.1) for
  values that are finite trees: scalars, dictionaries, arrays and references to objects
  that are already persisted. The context carries what the contract reads besides the
  value: the schema of each object type and the registered defaults.
\<close>

datatype NativeValue =
    Null
  | Boolean bool
  | Integer "64 word"
  | Single "32 word"
  | Number "64 word"
  | Text string
  | Date "64 word"
  | Persisted nat
  | Dict "(string \<times> NativeValue) list"
  | Array "NativeValue list"

record NativeContext =
  schemas :: "(string \<times> ObjectSchema) list"
  defaults :: "((string \<times> string) \<times> NativeValue) list"

definition native_dict_has_value_for_key :: "NativeContext \<Rightarrow> NativeValue \<Rightarrow> string \<Rightarrow> error + bool" where
  "native_dict_has_value_for_key ctx dict prop_name =
     (case dict of
        Dict entries \<Rightarrow> Inr (map_of entries prop_name \<noteq> None)
      | _ \<Rightarrow> Inl (ConversionError ''not a dictionary''))"

text \<open>Reading a key that the dictionary lacks gives the null value, not an error.\<close>

definition native_dict_value_for_key :: "NativeContext \<Rightarrow> NativeValue \<Rightarrow> string \<Rightarrow> error + NativeValue" where
  "native_dict_value_for_key ctx dict prop_name =
     (case dict of
        Dict entries \<Rightarrow> Inr (case map_of entries prop_name of None \<Rightarrow> Null | Some v \<Rightarrow> v)
      | _ \<Rightarrow> Inl (ConversionError ''not a dictionary''))"

definition native_has_default_value_for_property ::
  "NativeContext \<Rightarrow> ObjectSchema \<Rightarrow> string \<Rightarrow> error + bool" where
  "native_has_default_value_for_property ctx schema prop_name =
     Inr (map_of (defaults ctx) (ObjectSchema.name schema, prop_name) \<noteq> None)"

definition native_default_value_for_property ::
  "NativeContext \<Rightarrow> ObjectSchema \<Rightarrow> string \<Rightarrow> error + NativeValue" where
  "native_default_value_for_property ctx schema prop_name =
     (case map_of (defaults ctx) (ObjectSchema.name schema, prop_name) of
        None \<Rightarrow> Inl (ConversionError ''no default'')
      | Some v \<Rightarrow> Inr v)"

definition native_to_bool :: "NativeContext \<Rightarrow> NativeValue \<Rightarrow> error + bool" where
  "native_to_bool ctx val =
     (case val of Boolean b \<Rightarrow> Inr b | _ \<Rightarrow> Inl (ConversionError ''not a boolean''))"

definition native_to_long :: "NativeContext \<Rightarrow> NativeValue \<Rightarrow> error + 64 word" where
  "native_to_long ctx val =
     (case val of Integer n \<Rightarrow> Inr n | _ \<Rightarrow> Inl (ConversionError ''not an integer''))"

definition native_to_float :: "NativeContext \<Rightarrow> NativeValue \<Rightarrow> error + 32 word" where
  "native_to_float ctx val =
     (case val of Single x \<Rightarrow> Inr x | _ \<Rightarrow> Inl (ConversionError ''not a float''))"

definition native_to_double :: "NativeContext \<Rightarrow> NativeValue \<Rightarrow> error + 64 word" where
  "native_to_double ctx val =
     (case val of Number x \<Rightarrow> Inr x | _ \<Rightarrow> Inl (ConversionError ''not a double''))"

definition native_to_string :: "NativeContext \<Rightarrow> NativeValue \<Rightarrow> error + string" where
  "native_to_string ctx val =
     (case val of Text s \<Rightarrow> Inr s | _ \<Rightarrow> Inl (ConversionError ''not a string''))"

definition native_to_datetime :: "NativeContext \<Rightarrow> NativeValue \<Rightarrow> error + 64 word" where
  "native_to_datetime ctx val =
     (case val of Date d \<Rightarrow> Inr d | _ \<Rightarrow> Inl (ConversionError ''not a date''))"

definition native_is_null :: "NativeContext \<Rightarrow> NativeValue \<Rightarrow> error + bool" where
  "native_is_null ctx val = Inr (val = Null)"

definition native_array_size :: "NativeContext \<Rightarrow> NativeValue \<Rightarrow> error + nat" where
  "native_array_size ctx val =
     (case val of Array elements \<Rightarrow> Inr (length elements)
      | _ \<Rightarrow> Inl (ConversionError ''not an array''))"

definition native_array_value_at_index :: "NativeContext \<Rightarrow> NativeValue \<Rightarrow> nat \<Rightarrow> error + NativeValue" where
  "native_array_value_at_index ctx val i =
     (case val of
        Array elements \<Rightarrow>
          if i < length elements then Inr (elements ! i)
          else Inl (ConversionError ''index out of range'')
      | _ \<Rightarrow> Inl (ConversionError ''not an array''))"

definition native_accessor ::
  "(NativeContext \<Rightarrow> Realm \<Rightarrow> NativeValue \<Rightarrow> string \<Rightarrow> bool \<Rightarrow> (error + nat) \<times> Realm)
     \<Rightarrow> (NativeValue, NativeContext) NativeAccessor" where
  "native_accessor resolve =
     \<lparr>dict_has_value_for_key = native_dict_has_value_for_key,
      dict_value_for_key = native_dict_value_for_key,
      has_default_value_for_property = native_has_default_value_for_property,
      default_value_for_property = native_default_value_for_property,
      to_bool = native_to_bool,
      to_long = native_to_long,
      to_float = native_to_float,
      to_double = native_to_double,
      to_string = native_to_string,
      to_datetime = native_to_datetime,
      is_null = native_is_null,
      to_object_index = resolve,
      array_size = native_array_size,
      array_value_at_index = native_array_value_at_index\<rparr>"

text \<open>
  \<^verbatim>\<open>to_object_index\<close>, as the header's comment and the spec describe it: for an
  existing object return its row index; for any other value create or update the object
  of the given type from it, through \<^verbatim>\<open>Object::create\<close>, and return the row index.
  The first argument bounds the depth of nested values that are created, so that the
  recursion through \<open>create\<close> is primitive; a value nested deeper is refused.
\<close>

primrec native_to_object_index ::
  "nat \<Rightarrow> NativeContext \<Rightarrow> Realm \<Rightarrow> NativeValue \<Rightarrow> string \<Rightarrow> bool \<Rightarrow> (error + nat) \<times> Realm" where
  "native_to_object_index 0 = (\<lambda>ctx realm val type_name try_update.
     (case val of
        Persisted i \<Rightarrow> (Inr i, realm)
      | _ \<Rightarrow> (Inl (ConversionError ''nested too deep''), realm)))"
| "native_to_object_index (Suc depth) = (\<lambda>ctx realm val type_name try_update.
     (case val of
        Persisted i \<Rightarrow> (Inr i, realm)
      | _ \<Rightarrow>
         (case map_of (schemas ctx) type_name of
            None \<Rightarrow> (Inl (ConversionError ''no such object type''), realm)
          | Some schema \<Rightarrow>
             (case create (native_accessor (native_to_object_index depth)) ctx realm schema val
                     try_update of
                (Inl e, realm') \<Rightarrow> (Inl e, realm')
              | (Inr child, realm') \<Rightarrow> (Inr (get_index (row child)), realm')))))"

definition native :: "nat \<Rightarrow> (NativeValue, NativeContext) NativeAccessor" where
  "native depth = native_accessor (native_to_object_index depth)"

subsection \<open>A small store to evaluate on\<close>

text \<open>
  One object type \<open>''T''\<close>: an integer primary key, a string, an integer, a link to
  another \<open>''T''\<close> and a list of links to \<open>''T''\<close>, in columns 0 to 4.
\<close>

definition prop_id :: Property where
  "prop_id = \<lparr>Property.name = ''id'', type = PropertyTypeInt, object_type = [], table_column = 0,
              is_primary = True\<rparr>"

definition prop_label :: Property where
  "prop_label = \<lparr>Property.name = ''label'', type = PropertyTypeString, object_type = [],
                 table_column = 1, is_primary = False\<rparr>"

definition prop_age :: Property where
  "prop_age = \<lparr>Property.name = ''age'', type = PropertyTypeInt, object_type = [], table_column = 2,
               is_primary = False\<rparr>"

definition prop_friend :: Property where
  "prop_friend = \<lparr>Property.name = ''friend'', type = PropertyTypeObject, object_type = ''T'',
                  table_column = 3, is_primary = False\<rparr>"

definition prop_kids :: Property where
  "prop_kids = \<lparr>Property.name = ''kids'', type = PropertyTypeArray, object_type = ''T'',
                table_column = 4, is_primary = False\<rparr>"

definition schema_T :: ObjectSchema where
  "schema_T = \<lparr>ObjectSchema.name = ''T'', properties = [prop_id, prop_label, prop_age, prop_friend, prop_kids],
               primary_key = ''id''\<rparr>"

text \<open>
  A second object type \<open>''P''\<close>: an integer primary key in column 0 and a list of links to
  \<open>''T''\<close> in column 4.
\<close>

definition prop_members :: Property where
  "prop_members = \<lparr>Property.name = ''members'', type = PropertyTypeArray, object_type = ''T'',
                   table_column = 4, is_primary = False\<rparr>"

definition schema_P :: ObjectSchema where
  "schema_P = \<lparr>ObjectSchema.name = ''P'', properties = [prop_id, prop_members],
               primary_key = ''id''\<rparr>"

definition ctx_T :: NativeContext where
  "ctx_T = \<lparr>schemas = [(''T'', schema_T), (''P'', schema_P)],
            defaults = [((''T'', ''label''), Text []), ((''T'', ''age''), Integer 0),
                        ((''T'', ''friend''), Null), ((''T'', ''kids''), Array [])]\<rparr>"

definition empty_cells :: Cells where
  "empty_cells = (\<lambda>column.
     if column = 0 \<or> column = 2 then CellInt 0
     else if column = 1 then CellString []
     else if column = 3 then CellLink None
     else CellLinkList [])"

definition empty_table :: Table where
  "empty_table = \<lparr>empty_row = empty_cells, row_count = 0, rows = (\<lambda>i. empty_cells)\<rparr>"

definition realm_empty :: Realm where
  "realm_empty = \<lparr>is_in_transaction = True, read_group = (\<lambda>type_name. empty_table)\<rparr>"

definition row_T :: "nat \<Rightarrow> Row" where
  "row_T i = \<lparr>table = ''T'', get_index = i\<rparr>"

text \<open>The store with one object: key 1, label \<open>''old''\<close>, age 5, kids \<open>[7]\<close>.\<close>

definition realm_one :: Realm where
  "realm_one =
     set_cell (set_cell (set_cell (set_cell (snd (add_empty_row realm_empty ''T''))
       (row_T 0) 0 (CellInt 1)) (row_T 0) 1 (CellString ''old'')) (row_T 0) 2 (CellInt 5))
       (row_T 0) 4 (CellLinkList [7])"

text \<open>The same schemas with no default registered, and with one for the primary key.\<close>

definition ctx_bare :: NativeContext where
  "ctx_bare = \<lparr>schemas = [(''T'', schema_T)], defaults = []\<rparr>"

definition ctx_no_kids :: NativeContext where
  "ctx_no_kids = \<lparr>schemas = [(''T'', schema_T)],
                  defaults = [((''T'', ''label''), Text []), ((''T'', ''age''), Integer 0)]\<rparr>"

definition ctx_id_default :: NativeContext where
  "ctx_id_default = \<lparr>schemas = [(''T'', schema_T)], defaults = [((''T'', ''id''), Integer 1)]\<rparr>"

definition prop_extra :: Property where
  "prop_extra = \<lparr>Property.name = ''extra'', type = PropertyTypeAny, object_type = [],
                 table_column = 5, is_primary = False\<rparr>"

definition object_T :: "nat \<Rightarrow> Object" where
  "object_T i = \<lparr>object_schema = schema_T, row = row_T i\<rparr>"

section \<open>Facts about the storage and the loops\<close>

lemmas storage_defs = table_for_object_type_def find_first_string_def find_first_int_def
  add_empty_row_def get_cell_def set_cell_def set_bool_def set_int_def set_float_def
  set_double_def set_string_def set_binary_def set_datetime_def nullify_link_def set_link_def
  get_linklist_def link_view_clear_def link_view_add_def

lemmas native_defs = native_def native_accessor_def native_dict_has_value_for_key_def
  native_dict_value_for_key_def native_has_default_value_for_property_def
  native_default_value_for_property_def native_to_bool_def native_to_long_def
  native_to_float_def native_to_double_def native_to_string_def native_to_datetime_def
  native_is_null_def native_array_size_def native_array_value_at_index_def

lemmas example_defs = prop_id_def prop_label_def prop_age_def prop_friend_def prop_kids_def
  schema_T_def ctx_T_def empty_cells_def empty_table_def realm_empty_def row_T_def
  realm_one_def prop_extra_def object_T_def ctx_bare_def ctx_id_default_def prop_members_def
  schema_P_def ctx_no_kids_def

lemmas code_defs = property_for_name_def primary_key_property_def to_mixed_def
  write_converted_def set_property_value_impl_def set_property_value_def
  create_find_row_def create_populate_property_def create_object_def create_def
  array_links.simps

lemmas calls_defs = array_links_calls.simps set_property_value_impl_calls_def
  create_populate_property_calls_def create_object_calls_def create_calls_def change_def

lemma get_cell_set_cell:
  "get_cell (set_cell s r c v) r' c' =
     (if table r' = table r \<and> get_index r' = get_index r \<and> c' = c then v else get_cell s r' c')"
  by (simp add: get_cell_def set_cell_def Let_def)

lemma row_count_set_cell:
  "row_count (read_group (set_cell s r c v) t) = row_count (read_group s t)"
  by (simp add: set_cell_def Let_def)

lemma find_Some_upt:
  "find P [0..<n] = Some i \<Longrightarrow> i < n \<and> P i"
  by (auto simp: find_Some_iff)

lemma find_upt_exists:
  "\<exists>i<n. P i \<Longrightarrow> \<exists>i. find P [0..<n] = Some i"
  by (cases "find P [0..<n]") (auto simp: find_None_iff)


section \<open>The property writer: single cases\<close>

text \<open>
  C8. A write to a property of type \<^verbatim>\<open>PropertyTypeAny\<close> fails with
  \<open>UnsupportedTypeError\<close> for every value and every accessor, and leaves the realm as it
  was; the same through \<^verbatim>\<open>set_property_value\<close> when the name resolves to such a
  property.
\<close>

theorem write_any_unsupported:
  "type property = PropertyTypeAny \<Longrightarrow>
     set_property_value_impl acc ctx object property val try_update realm
       = (Inl UnsupportedTypeError, realm) \<and>
     (property_for_name (object_schema object) prop_name = Some property \<longrightarrow>
        set_property_value acc ctx object prop_name val try_update realm
          = (Inl UnsupportedTypeError, realm))"
  by (simp add: set_property_value_def set_property_value_impl_def to_mixed_def write_converted_def)

theorem write_any_unsupported_witness:
  "type prop_extra = PropertyTypeAny \<and>
   set_property_value_impl (native 0) ctx_T (object_T 0) prop_extra (Integer 1) True realm_one
     = (Inl UnsupportedTypeError, realm_one)"
  using write_any_unsupported [of prop_extra "native 0" ctx_T "object_T 0" "Integer 1" True realm_one]
  by (simp add: prop_extra_def)

text \<open>
  C7. For a property of type \<^verbatim>\<open>PropertyTypeObject\<close>: a value that the accessor
  reports as null nullifies the link of the column and the write succeeds; for any other
  value the write calls \<^verbatim>\<open>to_object_index\<close> with the property's
  \<^verbatim>\<open>object_type\<close> and the caller's \<^verbatim>\<open>try_update\<close>, and when that returns a row
  index the column's link is set to it, in the realm that the call left behind.
\<close>

theorem write_object_link:
  assumes "type property = PropertyTypeObject"
  shows "(is_null acc ctx val = Inr True \<longrightarrow>
            set_property_value_impl acc ctx object property val try_update realm
              = (Inr (), nullify_link realm (row object) (table_column property)) \<and>
            get_cell (nullify_link realm (row object) (table_column property))
              (row object) (table_column property) = CellLink None) \<and>
         (is_null acc ctx val = Inr False \<longrightarrow>
            (\<forall>target realm'.
               to_object_index acc ctx realm val (object_type property) try_update
                 = (Inr target, realm') \<longrightarrow>
               set_property_value_impl acc ctx object property val try_update realm
                 = (Inr (), set_link realm' (row object) (table_column property) target) \<and>
               get_cell (set_link realm' (row object) (table_column property) target)
                 (row object) (table_column property) = CellLink (Some target)))"
  using assms
  by (simp add: set_property_value_impl_def nullify_link_def set_link_def get_cell_set_cell)

theorem write_object_link_witness:
  "type prop_friend = PropertyTypeObject \<and>
   is_null (native 0) ctx_T Null = Inr True \<and>
   fst (set_property_value_impl (native 0) ctx_T (object_T 0) prop_friend Null True realm_one) = Inr () \<and>
   get_cell (snd (set_property_value_impl (native 0) ctx_T (object_T 0) prop_friend Null True realm_one))
     (row_T 0) 3 = CellLink None \<and>
   is_null (native 0) ctx_T (Persisted 0) = Inr False \<and>
   to_object_index (native 0) ctx_T realm_one (Persisted 0) ''T'' True = (Inr 0, realm_one) \<and>
   fst (set_property_value_impl (native 0) ctx_T (object_T 0) prop_friend (Persisted 0) True realm_one) = Inr () \<and>
   get_cell (snd (set_property_value_impl (native 0) ctx_T (object_T 0) prop_friend (Persisted 0) True realm_one))
     (row_T 0) 3 = CellLink (Some 0)"
  using write_object_link [of prop_friend "native 0" ctx_T Null "object_T 0" True realm_one]
    write_object_link [of prop_friend "native 0" ctx_T "Persisted 0" "object_T 0" True realm_one]
  by (simp add: prop_friend_def native_defs object_T_def row_T_def)

section \<open>Facts about the materializer\<close>

lemma find_first_string_row:
  "\<exists>i<row_count t. rows t i column = CellString v \<Longrightarrow> \<exists>i. find_first_string t column v = Some i"
  unfolding find_first_string_def by (rule find_upt_exists)

lemma find_first_int_row:
  "\<exists>i<row_count t. rows t i column = CellInt v \<Longrightarrow> \<exists>i. find_first_int t column v = Some i"
  unfolding find_first_int_def by (rule find_upt_exists)

lemma row_count_add_empty_row:
  "row_count (read_group (snd (add_empty_row realm type_name)) type_name)
     = Suc (row_count (read_group realm type_name))"
  by (simp add: add_empty_row_def Let_def)

lemma fst_add_empty_row:
  "fst (add_empty_row realm type_name) = row_count (read_group realm type_name)"
  by (simp add: add_empty_row_def Let_def)

lemma create_populate_property_reads_name:
  assumes "dict_has_value_for_key acc ctx val' (Property.name p)
             = dict_has_value_for_key acc ctx val (Property.name p)"
    and "dict_value_for_key acc ctx val' (Property.name p)
           = dict_value_for_key acc ctx val (Property.name p)"
  shows "create_populate_property acc ctx object p val' try_update created realm
           = create_populate_property acc ctx object p val try_update created realm"
  unfolding create_populate_property_def assms ..

lemma create_populate_reads_schema_names:
  assumes "\<forall>p\<in>set props.
             dict_has_value_for_key acc ctx val' (Property.name p)
               = dict_has_value_for_key acc ctx val (Property.name p) \<and>
             dict_value_for_key acc ctx val' (Property.name p)
               = dict_value_for_key acc ctx val (Property.name p)"
  shows "create_populate acc ctx object props val' try_update created realm
           = create_populate acc ctx object props val try_update created realm"
  using assms
proof (induction props arbitrary: realm)
  case Nil
  show ?case by simp
next
  case (Cons p props)
  have step: "create_populate_property acc ctx object p val' try_update created realm
                = create_populate_property acc ctx object p val try_update created realm"
    by (rule create_populate_property_reads_name) (use Cons.prems in simp_all)
  have rest: "create_populate acc ctx object props val' try_update created realm'
                = create_populate acc ctx object props val try_update created realm'" for realm'
    by (rule Cons.IH) (use Cons.prems in simp)
  show ?case
    unfolding create_populate.simps step rest ..
qed

lemma create_find_row_reads_primary_key:
  assumes "dict_value_for_key acc ctx val' (primary_key schema)
             = dict_value_for_key acc ctx val (primary_key schema)"
  shows "create_find_row acc ctx realm schema val' try_update
           = create_find_row acc ctx realm schema val try_update"
  using assms by (simp add: create_find_row_def Let_def cong: option.case_cong)

section \<open>Locating the row\<close>

text \<open>
  C2. In a transaction, with a primary key declared, when the key extracted from the
  input converts (by \<^verbatim>\<open>to_string\<close> for a string key, by \<^verbatim>\<open>to_long\<close> otherwise)
  to a value that some row of the table holds in the primary-key column, \<open>create\<close>
  with \<^verbatim>\<open>try_update = false\<close> fails with \<open>DuplicateKeyError\<close> and returns the realm
  exactly as it was: no row added, no cell written.
\<close>

theorem create_duplicate_key:
  assumes "is_in_transaction realm"
    and "primary_key_property schema = Some primary_prop"
    and "dict_value_for_key acc ctx val (primary_key schema) = Inr primary_value"
    and "t = table_for_object_type realm (ObjectSchema.name schema)"
    and "if type primary_prop = PropertyTypeString
         then \<exists>s. to_string acc ctx primary_value = Inr s \<and>
                  (\<exists>i<row_count t. rows t i (table_column primary_prop) = CellString s)
         else \<exists>n. to_long acc ctx primary_value = Inr n \<and>
                  (\<exists>i<row_count t. rows t i (table_column primary_prop) = CellInt n)"
  shows "create acc ctx realm schema val False
           = (Inl (DuplicateKeyError (ObjectSchema.name schema)), realm)"
proof (cases "type primary_prop = PropertyTypeString")
  case True
  with assms(5) obtain s where s: "to_string acc ctx primary_value = Inr s"
    and "\<exists>i<row_count t. rows t i (table_column primary_prop) = CellString s"
    by auto
  then obtain i where "find_first_string t (table_column primary_prop) s = Some i"
    using find_first_string_row by blast
  with assms(1-4) True s show ?thesis
    by (simp add: create_def create_find_row_def)
next
  case False
  with assms(5) obtain n where n: "to_long acc ctx primary_value = Inr n"
    and "\<exists>i<row_count t. rows t i (table_column primary_prop) = CellInt n"
    by auto
  then obtain i where "find_first_int t (table_column primary_prop) n = Some i"
    using find_first_int_row by blast
  with assms(1-4) False n show ?thesis
    by (simp add: create_def create_find_row_def)
qed

theorem create_duplicate_key_witness:
  "is_in_transaction realm_one \<and>
   primary_key_property schema_T = Some prop_id \<and>
   dict_value_for_key (native 0) ctx_T (Dict [(''id'', Integer 1), (''label'', Text ''new'')]) (primary_key schema_T)
     = Inr (Integer 1) \<and>
   to_long (native 0) ctx_T (Integer 1) = Inr 1 \<and>
   rows (table_for_object_type realm_one ''T'') 0 (table_column prop_id) = CellInt 1 \<and>
   create (native 0) ctx_T realm_one schema_T (Dict [(''id'', Integer 1), (''label'', Text ''new'')]) False
     = (Inl (DuplicateKeyError ''T''), realm_one)"
proof -
  have 1: "is_in_transaction realm_one"
    by (simp add: example_defs storage_defs)
  have 2: "primary_key_property schema_T = Some prop_id"
    by (simp add: example_defs code_defs)
  have 3: "dict_value_for_key (native 0) ctx_T (Dict [(''id'', Integer 1), (''label'', Text ''new'')])
             (primary_key schema_T) = Inr (Integer 1)"
    by (simp add: native_defs schema_T_def)
  have 4: "to_long (native 0) ctx_T (Integer 1) = Inr 1"
    by (simp add: native_defs)
  have 5: "rows (table_for_object_type realm_one ''T'') 0 (table_column prop_id) = CellInt 1"
    by (simp add: example_defs storage_defs)
  have 6: "row_count (table_for_object_type realm_one ''T'') = 1"
    by (simp add: example_defs storage_defs)
  have "create (native 0) ctx_T realm_one schema_T (Dict [(''id'', Integer 1), (''label'', Text ''new'')]) False
     = (Inl (DuplicateKeyError (ObjectSchema.name schema_T)), realm_one)"
    by (rule create_duplicate_key [OF 1 2 3 refl]) (use 4 5 6 in \<open>auto simp: prop_id_def schema_T_def intro!: exI [of _ 0]\<close>)
  with 1 2 3 4 5 show ?thesis by (simp add: schema_T_def)
qed

text \<open>
  C9. The search for the existing row reads the key with \<^verbatim>\<open>dict_value_for_key\<close>
  alone: replacing \<^verbatim>\<open>dict_has_value_for_key\<close>,
  \<^verbatim>\<open>has_default_value_for_property\<close> and \<^verbatim>\<open>default_value_for_property\<close> by any
  other functions leaves its result the same, whatever \<^verbatim>\<open>try_update\<close> is. So when
  the input does not supply a key that can be read and converted, \<open>create\<close> fails with
  the accessor's error and an untouched realm, even where a default is registered for
  the primary-key property.
\<close>

theorem create_find_row_key_only:
  "create_find_row (acc\<lparr>dict_has_value_for_key := has, has_default_value_for_property := has_default,
       default_value_for_property := default_value\<rparr>) ctx realm schema val try_update
     = create_find_row acc ctx realm schema val try_update \<and>
   (primary_key_property schema \<noteq> None \<and>
    dict_value_for_key acc ctx val (primary_key schema) = Inl e \<longrightarrow>
      create_find_row acc ctx realm schema val try_update = Inl e \<and>
      (is_in_transaction realm \<longrightarrow> create acc ctx realm schema val try_update = (Inl e, realm))) \<and>
   (\<forall>primary_prop primary_value.
      primary_key_property schema = Some primary_prop \<and>
      dict_value_for_key acc ctx val (primary_key schema) = Inr primary_value \<and>
      (if type primary_prop = PropertyTypeString then to_string acc ctx primary_value = Inl e
       else to_long acc ctx primary_value = Inl e) \<longrightarrow>
      create_find_row acc ctx realm schema val try_update = Inl e \<and>
      (is_in_transaction realm \<longrightarrow> create acc ctx realm schema val try_update = (Inl e, realm)))"
proof -
  have "create_find_row (acc\<lparr>dict_has_value_for_key := has, has_default_value_for_property := has_default,
       default_value_for_property := default_value\<rparr>) ctx realm schema val try_update
     = create_find_row acc ctx realm schema val try_update"
    by (simp add: create_find_row_def Let_def cong: option.case_cong sum.case_cong if_cong)
  moreover have "primary_key_property schema \<noteq> None \<and>
    dict_value_for_key acc ctx val (primary_key schema) = Inl e \<longrightarrow>
      create_find_row acc ctx realm schema val try_update = Inl e \<and>
      (is_in_transaction realm \<longrightarrow> create acc ctx realm schema val try_update = (Inl e, realm))"
    by (auto simp: create_find_row_def create_def)
  moreover have "\<forall>primary_prop primary_value.
      primary_key_property schema = Some primary_prop \<and>
      dict_value_for_key acc ctx val (primary_key schema) = Inr primary_value \<and>
      (if type primary_prop = PropertyTypeString then to_string acc ctx primary_value = Inl e
       else to_long acc ctx primary_value = Inl e) \<longrightarrow>
      create_find_row acc ctx realm schema val try_update = Inl e \<and>
      (is_in_transaction realm \<longrightarrow> create acc ctx realm schema val try_update = (Inl e, realm))"
    by (auto simp: create_find_row_def create_def split: if_splits)
  ultimately show ?thesis by blast
qed

theorem create_find_row_key_only_witness:
  "primary_key_property schema_T = Some prop_id \<and>
   dict_has_value_for_key (native 0) ctx_id_default (Dict [(''label'', Text ''new'')]) ''id'' = Inr False \<and>
   has_default_value_for_property (native 0) ctx_id_default schema_T ''id'' = Inr True \<and>
   default_value_for_property (native 0) ctx_id_default schema_T ''id'' = Inr (Integer 1) \<and>
   find_first_int (table_for_object_type realm_one ''T'') 0 1 = Some 0 \<and>
   dict_value_for_key (native 0) ctx_id_default (Dict [(''label'', Text ''new'')]) ''id'' = Inr Null \<and>
   to_long (native 0) ctx_id_default Null = Inl (ConversionError ''not an integer'') \<and>
   create (native 0) ctx_id_default realm_one schema_T (Dict [(''label'', Text ''new'')]) True
     = (Inl (ConversionError ''not an integer''), realm_one)"
  using create_find_row_key_only [where acc = "native 0" and ctx = ctx_id_default
      and realm = realm_one and schema = schema_T and val = "Dict [(''label'', Text ''new'')]"
      and try_update = True and e = "ConversionError ''not an integer''"]
  by (simp add: native_defs example_defs storage_defs ctx_id_default_def property_for_name_def
      primary_key_property_def)

text \<open>
  C5 (amended). In a transaction: with no primary key declared, \<open>create\<close> populates a
  new row. With one declared, the extracted key is sought with
  \<^verbatim>\<open>find_first_string\<close> when the primary-key property is of type string and with
  \<^verbatim>\<open>find_first_int\<close> otherwise; when no row matches, a new row is populated; when a
  row matches and \<^verbatim>\<open>try_update\<close> is true, that row is populated; when a row matches
  and \<^verbatim>\<open>try_update\<close> is false, \<open>create\<close> fails with \<open>DuplicateKeyError\<close> and
  allocates nothing.
\<close>

theorem create_locates_or_allocates:
  assumes "is_in_transaction realm"
    and "t = table_for_object_type realm (ObjectSchema.name schema)"
    and "fresh = create_object acc ctx schema val try_update True (row_count t)
                   (snd (add_empty_row realm (ObjectSchema.name schema)))"
  shows "(primary_key_property schema = None \<longrightarrow>
            create acc ctx realm schema val try_update = fresh) \<and>
         (\<forall>primary_prop primary_value found.
            primary_key_property schema = Some primary_prop \<and>
            dict_value_for_key acc ctx val (primary_key schema) = Inr primary_value \<and>
            (if type primary_prop = PropertyTypeString
             then \<exists>s. to_string acc ctx primary_value = Inr s \<and>
                      find_first_string t (table_column primary_prop) s = found
             else \<exists>n. to_long acc ctx primary_value = Inr n \<and>
                      find_first_int t (table_column primary_prop) n = found) \<longrightarrow>
            create acc ctx realm schema val try_update =
              (case found of
                 None \<Rightarrow> fresh
               | Some i \<Rightarrow>
                   if try_update then create_object acc ctx schema val try_update False i realm
                   else (Inl (DuplicateKeyError (ObjectSchema.name schema)), realm)))"
proof -
  have new: "(case add_empty_row realm (ObjectSchema.name schema) of
               (row_index, realm') \<Rightarrow> create_object acc ctx schema val try_update True row_index realm')
             = fresh"
    using assms(2,3)
    by (simp add: add_empty_row_def Let_def table_for_object_type_def)
  have a: "primary_key_property schema = None \<longrightarrow>
            create acc ctx realm schema val try_update = fresh"
    using assms(1) new by (simp add: create_def create_find_row_def)
  have b: "create acc ctx realm schema val try_update =
              (case found of
                 None \<Rightarrow> fresh
               | Some i \<Rightarrow>
                   if try_update then create_object acc ctx schema val try_update False i realm
                   else (Inl (DuplicateKeyError (ObjectSchema.name schema)), realm))"
    if "primary_key_property schema = Some primary_prop"
      and "dict_value_for_key acc ctx val (primary_key schema) = Inr primary_value"
      and "if type primary_prop = PropertyTypeString
             then \<exists>s. to_string acc ctx primary_value = Inr s \<and>
                      find_first_string t (table_column primary_prop) s = found
             else \<exists>n. to_long acc ctx primary_value = Inr n \<and>
                      find_first_int t (table_column primary_prop) n = found"
    for primary_prop primary_value found
    using that assms(1,2) new
    by (cases found; cases "type primary_prop = PropertyTypeString")
       (auto simp: create_def create_find_row_def)
  from a b show ?thesis by blast
qed

theorem create_locates_or_allocates_witness:
  "is_in_transaction realm_one \<and>
   primary_key_property schema_T = Some prop_id \<and>
   type prop_id = PropertyTypeInt \<and>
   find_first_int (table_for_object_type realm_one ''T'') 0 1 = Some 0 \<and>
   find_first_int (table_for_object_type realm_one ''T'') 0 2 = None \<and>
   create (native 0) ctx_T realm_one schema_T (Dict [(''id'', Integer 1)]) True
     = create_object (native 0) ctx_T schema_T (Dict [(''id'', Integer 1)]) True False 0 realm_one \<and>
   create (native 0) ctx_T realm_one schema_T (Dict [(''id'', Integer 1)]) False
     = (Inl (DuplicateKeyError ''T''), realm_one) \<and>
   create (native 0) ctx_T realm_one schema_T (Dict [(''id'', Integer 2)]) True
     = create_object (native 0) ctx_T schema_T (Dict [(''id'', Integer 2)]) True True 1
         (snd (add_empty_row realm_one ''T'')) \<and>
   primary_key_property (schema_T\<lparr>primary_key := []\<rparr>) = None \<and>
   create (native 0) ctx_T realm_one (schema_T\<lparr>primary_key := []\<rparr>) (Dict [(''id'', Integer 1)]) True
     = create_object (native 0) ctx_T (schema_T\<lparr>primary_key := []\<rparr>) (Dict [(''id'', Integer 1)])
         True True 1 (snd (add_empty_row realm_one ''T''))"
proof -
  have tx: "is_in_transaction realm_one"
    by (simp add: example_defs storage_defs)
  have pk: "primary_key_property schema_T = Some prop_id" "type prop_id = PropertyTypeInt"
    "primary_key_property (schema_T\<lparr>primary_key := []\<rparr>) = None"
    by (simp_all add: example_defs code_defs)
  have f: "find_first_int (table_for_object_type realm_one ''T'') 0 1 = Some 0"
    "find_first_int (table_for_object_type realm_one ''T'') 0 2 = None"
    "row_count (table_for_object_type realm_one ''T'') = 1"
    by (simp_all add: example_defs storage_defs)
  have k: "dict_value_for_key (native 0) ctx_T (Dict [(''id'', Integer n)]) (primary_key schema_T)
             = Inr (Integer n)"
     "to_long (native 0) ctx_T (Integer n) = Inr n" for n
    by (simp_all add: native_defs schema_T_def)
  have n: "ObjectSchema.name schema_T = ''T''" "table_column prop_id = 0"
    by (simp_all add: example_defs)
  note inst = create_locates_or_allocates [OF tx refl refl, where acc = "native 0" and ctx = ctx_T]
  have 1: "create (native 0) ctx_T realm_one schema_T (Dict [(''id'', Integer 1)]) True
     = create_object (native 0) ctx_T schema_T (Dict [(''id'', Integer 1)]) True False 0 realm_one"
    using inst [where schema = schema_T and val = "Dict [(''id'', Integer 1)]" and try_update = True,
        THEN conjunct2, rule_format, of prop_id "Integer 1" "Some 0"] pk f k n
    by simp
  have 2: "create (native 0) ctx_T realm_one schema_T (Dict [(''id'', Integer 1)]) False
     = (Inl (DuplicateKeyError ''T''), realm_one)"
    using inst [where schema = schema_T and val = "Dict [(''id'', Integer 1)]" and try_update = False,
        THEN conjunct2, rule_format, of prop_id "Integer 1" "Some 0"] pk f k n
    by simp
  have 3: "create (native 0) ctx_T realm_one schema_T (Dict [(''id'', Integer 2)]) True
     = create_object (native 0) ctx_T schema_T (Dict [(''id'', Integer 2)]) True True 1
         (snd (add_empty_row realm_one ''T''))"
    using inst [where schema = schema_T and val = "Dict [(''id'', Integer 2)]" and try_update = True,
        THEN conjunct2, rule_format, of prop_id "Integer 2" None] pk f k n
    by simp
  have 4: "create (native 0) ctx_T realm_one (schema_T\<lparr>primary_key := []\<rparr>) (Dict [(''id'', Integer 1)]) True
     = create_object (native 0) ctx_T (schema_T\<lparr>primary_key := []\<rparr>) (Dict [(''id'', Integer 1)])
         True True 1 (snd (add_empty_row realm_one ''T''))"
    using inst [where schema = "schema_T\<lparr>primary_key := []\<rparr>" and val = "Dict [(''id'', Integer 1)]"
        and try_update = True, THEN conjunct1] pk f n
    by simp
  from tx pk f 1 2 3 4 show ?thesis by simp
qed

text \<open>
  C5 as stated says that whenever it is not the case that a match is found and upsert is
  allowed, a new row is allocated. With a match and \<^verbatim>\<open>try_update = false\<close> the call
  fails instead and the table keeps its row count.
\<close>

theorem create_existing_key_without_upsert_counterexample:
  "primary_key_property schema_T = Some prop_id \<and>
   dict_value_for_key (native 0) ctx_T (Dict [(''id'', Integer 1)]) (primary_key schema_T) = Inr (Integer 1) \<and>
   to_long (native 0) ctx_T (Integer 1) = Inr 1 \<and>
   find_first_int (table_for_object_type realm_one ''T'') (table_column prop_id) 1 = Some 0 \<and>
   fst (create (native 0) ctx_T realm_one schema_T (Dict [(''id'', Integer 1)]) False)
     = Inl (DuplicateKeyError ''T'') \<and>
   row_count (read_group (snd (create (native 0) ctx_T realm_one schema_T (Dict [(''id'', Integer 1)]) False)) ''T'')
     = row_count (read_group realm_one ''T'')"
  by (simp add: native_defs example_defs storage_defs code_defs)

section \<open>Populating the row\<close>

text \<open>
  C6 (amended). \<^verbatim>\<open>set_property_value\<close> with a name that the schema does not have
  fails with \<open>UnknownPropertyError\<close>, whatever \<^verbatim>\<open>try_update\<close> and the value are, and
  leaves the realm untouched. \<open>create\<close> resolves no name of the input against the
  schema: it reads the input only under the names of the schema's properties and of the
  primary key, so two inputs that agree under those names give the same result, whatever
  else they hold.
\<close>

theorem unknown_property_names:
  "(property_for_name (object_schema object) prop_name = None \<longrightarrow>
      set_property_value acc ctx object prop_name val try_update realm
        = (Inl (UnknownPropertyError prop_name (ObjectSchema.name (object_schema object))), realm)) \<and>
   ((\<forall>p\<in>set (properties schema).
       dict_has_value_for_key acc ctx val' (Property.name p)
         = dict_has_value_for_key acc ctx val (Property.name p) \<and>
       dict_value_for_key acc ctx val' (Property.name p)
         = dict_value_for_key acc ctx val (Property.name p)) \<and>
    dict_value_for_key acc ctx val' (primary_key schema)
      = dict_value_for_key acc ctx val (primary_key schema) \<longrightarrow>
      create acc ctx realm schema val' try_update = create acc ctx realm schema val try_update)"
proof (intro conjI impI)
  assume "property_for_name (object_schema object) prop_name = None"
  then show "set_property_value acc ctx object prop_name val try_update realm
        = (Inl (UnknownPropertyError prop_name (ObjectSchema.name (object_schema object))), realm)"
    by (simp add: set_property_value_def)
next
  assume a: "(\<forall>p\<in>set (properties schema).
       dict_has_value_for_key acc ctx val' (Property.name p)
         = dict_has_value_for_key acc ctx val (Property.name p) \<and>
       dict_value_for_key acc ctx val' (Property.name p)
         = dict_value_for_key acc ctx val (Property.name p)) \<and>
    dict_value_for_key acc ctx val' (primary_key schema)
      = dict_value_for_key acc ctx val (primary_key schema)"
  then have "create_populate acc ctx object (properties schema) val' try_update created realm'
           = create_populate acc ctx object (properties schema) val try_update created realm'"
    for object created realm'
    by (intro create_populate_reads_schema_names) blast
  then have eq1: "create_object acc ctx schema val' try_update = create_object acc ctx schema val try_update"
    by (simp add: create_object_def fun_eq_iff)
  have eq2: "create_find_row acc ctx realm schema val' try_update
           = create_find_row acc ctx realm schema val try_update"
    using a by (intro create_find_row_reads_primary_key) blast
  show "create acc ctx realm schema val' try_update = create acc ctx realm schema val try_update"
    unfolding create_def eq1 eq2 ..
qed

theorem unknown_property_names_witness:
  "property_for_name (object_schema (object_T 0)) ''bogus'' = None \<and>
   set_property_value (native 0) ctx_T (object_T 0) ''bogus'' (Integer 5) True realm_one
     = (Inl (UnknownPropertyError ''bogus'' ''T''), realm_one) \<and>
   set_property_value (native 0) ctx_T (object_T 0) ''bogus'' (Integer 5) False realm_one
     = (Inl (UnknownPropertyError ''bogus'' ''T''), realm_one) \<and>
   create (native 0) ctx_T realm_one schema_T
       (Dict [(''id'', Integer 1), (''age'', Integer 6), (''bogus'', Integer 5)]) True
     = create (native 0) ctx_T realm_one schema_T (Dict [(''id'', Integer 1), (''age'', Integer 6)]) True"
proof -
  have none: "property_for_name (object_schema (object_T 0)) ''bogus'' = None"
    by (simp add: example_defs property_for_name_def)
  have name: "ObjectSchema.name (object_schema (object_T 0)) = ''T''"
    by (simp add: example_defs)
  have agree: "(\<forall>p\<in>set (properties schema_T).
       dict_has_value_for_key (native 0) ctx_T
           (Dict [(''id'', Integer 1), (''age'', Integer 6), (''bogus'', Integer 5)]) (Property.name p)
         = dict_has_value_for_key (native 0) ctx_T (Dict [(''id'', Integer 1), (''age'', Integer 6)])
             (Property.name p) \<and>
       dict_value_for_key (native 0) ctx_T
           (Dict [(''id'', Integer 1), (''age'', Integer 6), (''bogus'', Integer 5)]) (Property.name p)
         = dict_value_for_key (native 0) ctx_T (Dict [(''id'', Integer 1), (''age'', Integer 6)])
             (Property.name p)) \<and>
    dict_value_for_key (native 0) ctx_T
        (Dict [(''id'', Integer 1), (''age'', Integer 6), (''bogus'', Integer 5)]) (primary_key schema_T)
      = dict_value_for_key (native 0) ctx_T (Dict [(''id'', Integer 1), (''age'', Integer 6)])
          (primary_key schema_T)"
    by (simp add: native_defs schema_T_def prop_id_def prop_label_def prop_age_def
        prop_friend_def prop_kids_def)
  from unknown_property_names [where object = "object_T 0" and prop_name = "''bogus''"
      and acc = "native 0" and ctx = ctx_T, THEN conjunct1, rule_format, OF none]
    unknown_property_names [THEN conjunct2, rule_format, OF agree]
    none name
  show ?thesis by simp
qed

text \<open>
  C6 as stated says that an unknown property name is never silently ignored, on the create
  path too. The input here has an entry \<open>''bogus''\<close>, which is no property of the schema,
  and \<open>create\<close> succeeds.
\<close>

theorem create_ignores_unknown_name_counterexample:
  "dict_has_value_for_key (native 0) ctx_T
     (Dict [(''id'', Integer 1), (''age'', Integer 6), (''bogus'', Integer 5)]) ''bogus'' = Inr True \<and>
   property_for_name schema_T ''bogus'' = None \<and>
   fst (create (native 0) ctx_T realm_one schema_T
     (Dict [(''id'', Integer 1), (''age'', Integer 6), (''bogus'', Integer 5)]) True) = Inr (object_T 0)"
  by (simp add: native_defs example_defs storage_defs code_defs)

section \<open>What a run changes\<close>

lemma change_Resolution [simp]:
  "change g \<lparr>store_before = s, resolved = v, outcome = res, store_after = s'\<rparr> = g s' - g s"
  by (simp add: change_def)

text \<open>
  The calls listed for the loop are its own: call \<open>j\<close> resolves element \<open>i + j\<close>, in the
  store the loop was started in (\<open>j = 0\<close>) or in the store left by appending the link
  that call \<open>j - 1\<close> returned.
\<close>

lemma array_links_calls_nth:
  assumes "j < length (array_links_calls acc ctx r property val try_update i count realm)"
  shows "\<exists>e. array_value_at_index acc ctx val (i + j) = Inr e \<and>
             resolved (array_links_calls acc ctx r property val try_update i count realm ! j) = e \<and>
             to_object_index acc ctx
                 (store_before (array_links_calls acc ctx r property val try_update i count realm ! j))
                 e (object_type property) try_update
               = (outcome (array_links_calls acc ctx r property val try_update i count realm ! j),
                  store_after (array_links_calls acc ctx r property val try_update i count realm ! j)) \<and>
             i + j < count \<and>
             (j = 0 \<longrightarrow>
                store_before (array_links_calls acc ctx r property val try_update i count realm ! j)
                  = realm) \<and>
             (0 < j \<longrightarrow>
                (\<exists>target.
                   outcome (array_links_calls acc ctx r property val try_update i count realm ! (j - 1))
                     = Inr target \<and>
                   store_before (array_links_calls acc ctx r property val try_update i count realm ! j)
                     = link_view_add
                         (store_after
                            (array_links_calls acc ctx r property val try_update i count realm ! (j - 1)))
                         r (table_column property) target))"
  using assms
proof (induction acc ctx r property val try_update i count realm arbitrary: j
    rule: array_links_calls.induct)
  case (1 acc ctx r property val try_update i count realm)
  let ?calls = "array_links_calls acc ctx r property val try_update i count realm"
  from "1.prems" have nonempty: "?calls \<noteq> []" by auto
  then have less: "i < count"
    by (auto simp: array_links_calls.simps [of _ _ _ _ _ _ i] split: if_splits)
  from nonempty less obtain element where el: "array_value_at_index acc ctx val i = Inr element"
    by (cases "array_value_at_index acc ctx val i")
       (auto simp: array_links_calls.simps [of _ _ _ _ _ _ i])
  obtain res realm' where toi:
    "to_object_index acc ctx realm element (object_type property) try_update = (res, realm')"
    by (meson surj_pair)
  show ?case
  proof (cases res)
    case (Inl e)
    with less el toi have calls: "?calls = [\<lparr>store_before = realm, resolved = element,
        outcome = Inl e, store_after = realm'\<rparr>]"
      by (simp add: array_links_calls.simps [of _ _ _ _ _ _ i])
    with "1.prems" have "j = 0" by simp
    with calls less el toi Inl show ?thesis by simp
  next
    case (Inr target)
    let ?next = "link_view_add realm' r (table_column property) target"
    let ?tail = "array_links_calls acc ctx r property val try_update (Suc i) count ?next"
    have calls: "?calls = \<lparr>store_before = realm, resolved = element, outcome = Inr target,
        store_after = realm'\<rparr> # ?tail"
      using less el toi Inr by (simp add: array_links_calls.simps [of _ _ _ _ _ _ i])
    show ?thesis
    proof (cases j)
      case 0
      with calls less el toi Inr show ?thesis by simp
    next
      case (Suc j')
      with "1.prems" calls have "j' < length ?tail" by simp
      from "1.IH" [OF less el toi [symmetric] Inr this]
      obtain e where e:
        "array_value_at_index acc ctx val (Suc i + j') = Inr e"
        "resolved (?tail ! j') = e"
        "to_object_index acc ctx (store_before (?tail ! j')) e (object_type property) try_update
           = (outcome (?tail ! j'), store_after (?tail ! j'))"
        "Suc i + j' < count"
        "j' = 0 \<longrightarrow> store_before (?tail ! j') = ?next"
        "0 < j' \<longrightarrow> (\<exists>target. outcome (?tail ! (j' - 1)) = Inr target \<and>
             store_before (?tail ! j')
               = link_view_add (store_after (?tail ! (j' - 1))) r (table_column property) target)"
        by blast
      have prev: "\<exists>t. outcome (?calls ! (j - 1)) = Inr t \<and>
                    store_before (?calls ! j)
                      = link_view_add (store_after (?calls ! (j - 1))) r (table_column property) t"
      proof (cases j')
        case 0
        with Suc calls e(5) show ?thesis by simp
      next
        case (Suc j'')
        with \<open>j = Suc j'\<close> calls e(6) show ?thesis by simp
      qed
      from Suc calls e(1-4) prev show ?thesis by simp
    qed
  qed
qed

text \<open>
  Every resolution listed for a run of \<open>create\<close> is a call of \<^verbatim>\<open>to_object_index\<close>
  with the object type of one of the schema's properties and the caller's
  \<^verbatim>\<open>try_update\<close>: what it returned and the store it left are the call's.
\<close>

lemma set_property_value_impl_calls_genuine:
  assumes "call \<in> set (set_property_value_impl_calls acc ctx object property val try_update realm)"
  shows "to_object_index acc ctx (store_before call) (resolved call) (object_type property) try_update
           = (outcome call, store_after call)"
proof (cases "type property")
  case PropertyTypeObject
  with assms show ?thesis
    by (auto simp: set_property_value_impl_calls_def Let_def split: sum.splits bool.splits prod.splits)
next
  case PropertyTypeArray
  with assms obtain count where
    "call \<in> set (array_links_calls acc ctx (row object) property val try_update 0 count
        (link_view_clear realm (row object) (table_column property)))"
    by (auto simp: set_property_value_impl_calls_def Let_def split: sum.splits)
  then obtain j where
    "j < length (array_links_calls acc ctx (row object) property val try_update 0 count
        (link_view_clear realm (row object) (table_column property)))"
    "call = array_links_calls acc ctx (row object) property val try_update 0 count
        (link_view_clear realm (row object) (table_column property)) ! j"
    by (auto simp: in_set_conv_nth)
  with array_links_calls_nth [OF this(1)] show ?thesis by auto
qed (use assms in \<open>simp_all add: set_property_value_impl_calls_def\<close>)

lemma create_populate_property_calls_genuine:
  assumes "call \<in> set (create_populate_property_calls acc ctx object p val try_update created realm)"
  shows "to_object_index acc ctx (store_before call) (resolved call) (object_type p) try_update
           = (outcome call, store_after call)"
proof -
  let ?calls = "create_populate_property_calls acc ctx object p val try_update created realm"
  have "?calls = [] \<or>
        (\<exists>v. ?calls = set_property_value_impl_calls acc ctx object p v try_update realm)"
  proof (cases "created \<or> \<not> is_primary p")
    case False
    then show ?thesis by (simp add: create_populate_property_calls_def)
  next
    case processed: True
    show ?thesis
    proof (cases "dict_has_value_for_key acc ctx val (Property.name p)")
      case (Inl e)
      with processed show ?thesis by (simp add: create_populate_property_calls_def)
    next
      case has: (Inr b)
      show ?thesis
      proof (cases b)
        case True
        with processed has show ?thesis
          by (cases "dict_value_for_key acc ctx val (Property.name p)")
             (auto simp: create_populate_property_calls_def)
      next
        case False
        show ?thesis
        proof (cases created)
          case False
          with processed has \<open>\<not> b\<close> show ?thesis
            by (simp add: create_populate_property_calls_def)
        next
          case True
          show ?thesis
          proof (cases "has_default_value_for_property acc ctx (object_schema object)
                          (Property.name p)")
            case (Inl e)
            with True has \<open>\<not> b\<close> show ?thesis
              by (simp add: create_populate_property_calls_def)
          next
            case (Inr d)
            with True has \<open>\<not> b\<close> show ?thesis
              by (cases d; cases "default_value_for_property acc ctx (object_schema object)
                    (Property.name p)")
                 (auto simp: create_populate_property_calls_def)
          qed
        qed
      qed
    qed
  qed
  with assms show ?thesis
    by (auto simp: set_property_value_impl_calls_genuine)
qed

lemma create_populate_calls_genuine:
  assumes "call \<in> set (create_populate_calls acc ctx object props val try_update created realm)"
  shows "\<exists>p\<in>set props.
           to_object_index acc ctx (store_before call) (resolved call) (object_type p) try_update
             = (outcome call, store_after call)"
  using assms
proof (induction props arbitrary: realm)
  case Nil
  then show ?case by simp
next
  case (Cons p ps)
  from Cons.prems consider
    (first) "call \<in> set (create_populate_property_calls acc ctx object p val try_update created realm)"
    | (rest) realm' where
      "call \<in> set (create_populate_calls acc ctx object ps val try_update created realm')"
    by (auto split: prod.splits sum.splits)
  then show ?case
  proof cases
    case first
    from create_populate_property_calls_genuine [OF this] show ?thesis by simp
  next
    case rest
    from Cons.IH [OF this] show ?thesis by auto
  qed
qed

lemma create_calls_genuine:
  assumes "call \<in> set (create_calls acc ctx realm schema val try_update)"
  shows "\<exists>p\<in>set (properties schema).
           to_object_index acc ctx (store_before call) (resolved call) (object_type p) try_update
             = (outcome call, store_after call)"
proof -
  from assms obtain created i realm' where
    "call \<in> set (create_object_calls acc ctx schema val try_update created i realm')"
    by (auto simp: create_calls_def split: if_splits sum.splits option.splits prod.splits)
  then show ?thesis
    unfolding create_object_calls_def by (rule create_populate_calls_genuine)
qed

text \<open>
  Every change that a run makes to a quantity of the store which its own column writes
  leave alone is a change made inside one of its resolutions.
\<close>

lemma array_links_accounts:
  fixes g :: "Realm \<Rightarrow> int"
  assumes "\<And>s x. g (set_cell s r (table_column property) x) = g s"
  shows "g (snd (array_links acc ctx r property val try_update i count realm))
           = g realm + sum_list (map (change g)
               (array_links_calls acc ctx r property val try_update i count realm))"
  using assms
proof (induction acc ctx r property val try_update i count realm rule: array_links.induct)
  case (1 acc ctx r property val try_update i count realm)
  show ?case
  proof (cases "i < count")
    case False
    then show ?thesis by (simp add: array_links.simps array_links_calls.simps)
  next
    case True
    show ?thesis
    proof (cases "array_value_at_index acc ctx val i")
      case (Inl e)
      with True show ?thesis by (simp add: array_links.simps array_links_calls.simps)
    next
      case (Inr element)
      obtain res realm' where toi:
        "to_object_index acc ctx realm element (object_type property) try_update = (res, realm')"
        by (meson surj_pair)
      show ?thesis
      proof (cases res)
        case (Inl e)
        with True Inr toi show ?thesis
          by (simp add: array_links.simps array_links_calls.simps)
      next
        case (Inr target)
        let ?next = "link_view_add realm' r (table_column property) target"
        have "g (snd (array_links acc ctx r property val try_update (Suc i) count ?next))
                = g ?next + sum_list (map (change g)
                    (array_links_calls acc ctx r property val try_update (Suc i) count ?next))"
          using "1.IH" [OF True \<open>array_value_at_index acc ctx val i = Inr element\<close>
              toi [symmetric] Inr] "1.prems" by blast
        moreover have "g ?next = g realm'"
          using "1.prems" by (simp add: link_view_add_def)
        ultimately show ?thesis
          using True \<open>array_value_at_index acc ctx val i = Inr element\<close> toi Inr
          by (simp add: array_links.simps [of _ _ _ _ _ _ i]
              array_links_calls.simps [of _ _ _ _ _ _ i])
      qed
    qed
  qed
qed

lemma set_property_value_impl_accounts:
  fixes g :: "Realm \<Rightarrow> int"
  assumes own: "\<And>s x. g (set_cell s (row object) (table_column property) x) = g s"
  shows "g (snd (set_property_value_impl acc ctx object property val try_update realm))
           = g realm + sum_list (map (change g)
               (set_property_value_impl_calls acc ctx object property val try_update realm))"
proof (cases "type property")
  case PropertyTypeObject
  then show ?thesis
    using own
    by (auto simp: set_property_value_impl_def set_property_value_impl_calls_def nullify_link_def
        set_link_def Let_def split: sum.splits bool.splits prod.splits)
next
  case PropertyTypeArray
  have "g (snd (array_links acc ctx (row object) property val try_update 0 count
                 (link_view_clear realm (row object) (table_column property))))
          = g realm + sum_list (map (change g)
              (array_links_calls acc ctx (row object) property val try_update 0 count
                 (link_view_clear realm (row object) (table_column property))))" for count
    using array_links_accounts [where g = g and r = "row object" and property = property
        and acc = acc and ctx = ctx and val = val and try_update = try_update and i = 0
        and count = count
        and realm = "link_view_clear realm (row object) (table_column property)", OF own] own
    by (simp add: link_view_clear_def)
  with PropertyTypeArray show ?thesis
    using own
    by (auto simp: set_property_value_impl_def set_property_value_impl_calls_def
        link_view_clear_def Let_def split: sum.splits)
qed (use own in \<open>auto simp: set_property_value_impl_def set_property_value_impl_calls_def
      write_converted_def to_mixed_def Let_def set_bool_def set_int_def set_float_def
      set_double_def set_string_def set_binary_def set_datetime_def split: sum.splits\<close>)

text \<open>
  A property is written by the loop when it is not skipped as the primary key of an
  existing row and the input has an entry for it or the row is new.
\<close>

lemma create_populate_property_accounts:
  fixes g :: "Realm \<Rightarrow> int"
  assumes "(created \<or> \<not> is_primary prop) \<and>
           (created \<or> dict_has_value_for_key acc ctx val (Property.name prop) = Inr True) \<Longrightarrow>
             (\<forall>s x. g (set_cell s (row object) (table_column prop) x) = g s)"
  shows "g (snd (create_populate_property acc ctx object prop val try_update created realm))
           = g realm + sum_list (map (change g)
               (create_populate_property_calls acc ctx object prop val try_update created realm))"
proof (cases "(created \<or> \<not> is_primary prop) \<and>
           (created \<or> dict_has_value_for_key acc ctx val (Property.name prop) = Inr True)")
  case True
  with assms have "g (snd (set_property_value_impl acc ctx object prop v try_update realm))
           = g realm + sum_list (map (change g)
               (set_property_value_impl_calls acc ctx object prop v try_update realm))" for v
    by (intro set_property_value_impl_accounts) blast
  then show ?thesis
    by (auto simp: create_populate_property_def create_populate_property_calls_def
        split: sum.splits bool.splits)
next
  case False
  then show ?thesis
    by (auto simp: create_populate_property_def create_populate_property_calls_def
        split: sum.splits bool.splits)
qed

lemma create_populate_accounts:
  fixes g :: "Realm \<Rightarrow> int"
  assumes "\<forall>prop\<in>set props.
             (created \<or> \<not> is_primary prop) \<and>
             (created \<or> dict_has_value_for_key acc ctx val (Property.name prop) = Inr True) \<longrightarrow>
               (\<forall>s x. g (set_cell s (row object) (table_column prop) x) = g s)"
  shows "g (snd (create_populate acc ctx object props val try_update created realm))
           = g realm + sum_list (map (change g)
               (create_populate_calls acc ctx object props val try_update created realm))"
  using assms
proof (induction props arbitrary: realm)
  case Nil
  show ?case by simp
next
  case (Cons p ps)
  have step: "g (snd (create_populate_property acc ctx object p val try_update created realm))
                = g realm + sum_list (map (change g)
                    (create_populate_property_calls acc ctx object p val try_update created realm))"
    by (rule create_populate_property_accounts) (use Cons.prems in simp)
  have rest: "g (snd (create_populate acc ctx object ps val try_update created realm'))
                = g realm' + sum_list (map (change g)
                    (create_populate_calls acc ctx object ps val try_update created realm'))"
    for realm'
    by (rule Cons.IH) (use Cons.prems in simp)
  obtain res realm1 where run:
    "create_populate_property acc ctx object p val try_update created realm = (res, realm1)"
    by (meson surj_pair)
  show ?case
    using step rest [of realm1] run by (cases res) simp_all
qed


lemma sum_list_all_zero:
  fixes h :: "'a \<Rightarrow> int"
  shows "\<forall>x\<in>set xs. h x = 0 \<Longrightarrow> sum_list (map h xs) = 0"
  by (induction xs) auto

text \<open>
  So a quantity of any type that the run's own writes leave alone, and that every
  resolution of the run leaves as it found it, is the same after the run.
\<close>

lemma create_populate_keeps:
  assumes own: "\<forall>prop\<in>set props.
             (created \<or> \<not> is_primary prop) \<and>
             (created \<or> dict_has_value_for_key acc ctx val (Property.name prop) = Inr True) \<longrightarrow>
               (\<forall>s x. f (set_cell s (row object) (table_column prop) x) = f s)"
    and calls: "\<forall>call\<in>set (create_populate_calls acc ctx object props val try_update created realm).
             f (store_after call) = f (store_before call)"
  shows "f (snd (create_populate acc ctx object props val try_update created realm)) = f realm"
proof -
  define g :: "Realm \<Rightarrow> int" where "g s = (if f s = f realm then 0 else 1)" for s
  have "g (snd (create_populate acc ctx object props val try_update created realm))
          = g realm + sum_list (map (change g)
              (create_populate_calls acc ctx object props val try_update created realm))"
    by (rule create_populate_accounts) (use own in \<open>simp add: g_def\<close>)
  moreover have "change g call = 0"
    if "call \<in> set (create_populate_calls acc ctx object props val try_update created realm)"
    for call
    using calls that by (simp add: change_def g_def)
  then have "sum_list (map (change g)
              (create_populate_calls acc ctx object props val try_update created realm)) = 0"
    by (intro sum_list_all_zero) blast
  ultimately have "g (snd (create_populate acc ctx object props val try_update created realm)) = 0"
    by (simp add: g_def)
  then show ?thesis
    by (simp add: g_def split: if_splits)
qed

lemma create_find_row_Some:
  assumes "create_find_row acc ctx realm schema val try_update = Inr (Some i)"
  shows "i < row_count (table_for_object_type realm (ObjectSchema.name schema))"
  using assms
  by (auto simp: create_find_row_def find_first_string_def find_first_int_def Let_def
      split: option.splits sum.splits if_splits dest: find_Some_upt)

text \<open>
  C1 (amended). When \<open>create\<close> is called in a transaction with
  \<^verbatim>\<open>try_update = true\<close> and the search finds row \<open>i\<close>, the object returned is on row
  \<open>i\<close>, a row the table already had, and \<open>create\<close> allocates no row itself: the row count
  of every table changes by exactly what the resolutions of the run (its calls of
  \<^verbatim>\<open>to_object_index\<close> on the nested values of the input) add. Let \<open>c\<close> be a column that
  is not the column of any non-primary property for which the input reports an entry,
  and suppose that none of the resolutions of the run changes column \<open>c\<close> of row \<open>i\<close>.
  Then column \<open>c\<close> of row \<open>i\<close> holds after the call what it held before, whether the
  call succeeds or fails.
\<close>

theorem create_upsert_keeps_other_columns:
  assumes "is_in_transaction realm"
    and "create_find_row acc ctx realm schema val True = Inr (Some i)"
    and "r = \<lparr>table = ObjectSchema.name schema, get_index = i\<rparr>"
    and "calls = create_calls acc ctx realm schema val True"
    and "\<forall>prop\<in>set (properties schema).
           \<not> is_primary prop \<and> dict_has_value_for_key acc ctx val (Property.name prop) = Inr True \<longrightarrow>
             table_column prop \<noteq> c"
    and "\<forall>call\<in>set calls. get_cell (store_after call) r c = get_cell (store_before call) r c"
  shows "get_cell (snd (create acc ctx realm schema val True)) r c = get_cell realm r c \<and>
         i < row_count (table_for_object_type realm (ObjectSchema.name schema)) \<and>
         (\<forall>object. fst (create acc ctx realm schema val True) = Inr object \<longrightarrow> row object = r) \<and>
         (\<forall>t. int (row_count (read_group (snd (create acc ctx realm schema val True)) t))
                = int (row_count (read_group realm t))
                  + sum_list (map (change (\<lambda>s. int (row_count (read_group s t)))) calls))"
proof -
  let ?object = "\<lparr>object_schema = schema, row = r\<rparr>"
  let ?run = "create_populate acc ctx ?object (properties schema) val True False realm"
  have calls: "calls = create_populate_calls acc ctx ?object (properties schema) val True False realm"
    using assms(1-4) by (simp add: create_calls_def create_object_calls_def)
  have final: "snd (create acc ctx realm schema val True) = snd ?run"
    using assms(1-3) by (cases ?run; cases "fst ?run") (simp_all add: create_def create_object_def)
  have "get_cell (snd ?run) r c = get_cell realm r c"
    by (rule create_populate_keeps [where f = "\<lambda>s. get_cell s r c"])
       (use assms(5,6) calls in \<open>auto simp: get_cell_set_cell\<close>)
  moreover have "int (row_count (read_group (snd ?run) t))
                = int (row_count (read_group realm t))
                  + sum_list (map (change (\<lambda>s. int (row_count (read_group s t)))) calls)" for t
    unfolding calls
    by (rule create_populate_accounts) (simp add: row_count_set_cell)
  moreover have "\<forall>object. fst (create acc ctx realm schema val True) = Inr object \<longrightarrow> row object = r"
    using assms(1-3) by (auto simp: create_def create_object_def Let_def split: prod.splits sum.splits)
  ultimately show ?thesis
    using create_find_row_Some [OF assms(2)] final by simp
qed

theorem create_upsert_keeps_other_columns_witness:
  "is_in_transaction realm_one \<and>
   create_find_row (native (Suc 0)) ctx_T realm_one schema_T
     (Dict [(''id'', Integer 1), (''age'', Integer 6), (''friend'', Dict [(''id'', Integer 2)])]) True
     = Inr (Some 0) \<and>
   dict_has_value_for_key (native (Suc 0)) ctx_T
     (Dict [(''id'', Integer 1), (''age'', Integer 6), (''friend'', Dict [(''id'', Integer 2)])])
     ''label'' = Inr False \<and>
   length (create_calls (native (Suc 0)) ctx_T realm_one schema_T
     (Dict [(''id'', Integer 1), (''age'', Integer 6), (''friend'', Dict [(''id'', Integer 2)])]) True)
     = 1 \<and>
   get_cell realm_one (row_T 0) 1 = CellString ''old'' \<and>
   get_cell (snd (create (native (Suc 0)) ctx_T realm_one schema_T
     (Dict [(''id'', Integer 1), (''age'', Integer 6), (''friend'', Dict [(''id'', Integer 2)])]) True))
     (row_T 0) 1 = CellString ''old'' \<and>
   get_cell (snd (create (native (Suc 0)) ctx_T realm_one schema_T
     (Dict [(''id'', Integer 1), (''age'', Integer 6), (''friend'', Dict [(''id'', Integer 2)])]) True))
     (row_T 0) 3 = CellLink (Some 1) \<and>
   fst (create (native (Suc 0)) ctx_T realm_one schema_T
     (Dict [(''id'', Integer 1), (''age'', Integer 6), (''friend'', Dict [(''id'', Integer 2)])]) True)
     = Inr (object_T 0) \<and>
   row_count (read_group realm_one ''T'') = 1 \<and>
   sum_list (map (change (\<lambda>s. int (row_count (read_group s ''T''))))
     (create_calls (native (Suc 0)) ctx_T realm_one schema_T
       (Dict [(''id'', Integer 1), (''age'', Integer 6), (''friend'', Dict [(''id'', Integer 2)])]) True))
     = 1 \<and>
   int (row_count (read_group (snd (create (native (Suc 0)) ctx_T realm_one schema_T
     (Dict [(''id'', Integer 1), (''age'', Integer 6), (''friend'', Dict [(''id'', Integer 2)])]) True))
     ''T'')) = 2"
proof -
  let ?val = "Dict [(''id'', Integer 1), (''age'', Integer 6), (''friend'', Dict [(''id'', Integer 2)])]"
  let ?calls = "create_calls (native (Suc 0)) ctx_T realm_one schema_T ?val True"
  have 1: "is_in_transaction realm_one"
    by (simp add: example_defs storage_defs)
  have 2: "create_find_row (native (Suc 0)) ctx_T realm_one schema_T ?val True = Inr (Some 0)"
    by (simp add: native_defs example_defs storage_defs code_defs)
  have 3: "row_T 0 = \<lparr>table = ObjectSchema.name schema_T, get_index = 0\<rparr>"
    by (simp add: row_T_def schema_T_def)
  have 5: "\<forall>prop\<in>set (properties schema_T).
           \<not> is_primary prop \<and>
           dict_has_value_for_key (native (Suc 0)) ctx_T ?val (Property.name prop) = Inr True \<longrightarrow>
             table_column prop \<noteq> 1"
    by (simp add: native_defs schema_T_def prop_id_def prop_label_def prop_age_def
          prop_friend_def prop_kids_def)
  have 6: "\<forall>call\<in>set ?calls.
             get_cell (store_after call) (row_T 0) 1 = get_cell (store_before call) (row_T 0) 1"
    by (simp add: native_defs example_defs storage_defs code_defs calls_defs)
  have 7: "dict_has_value_for_key (native (Suc 0)) ctx_T ?val ''label'' = Inr False"
    by (simp add: native_defs)
  have 8: "get_cell realm_one (row_T 0) 1 = CellString ''old''"
    "row_count (read_group realm_one ''T'') = 1"
    by (simp_all add: example_defs storage_defs)
  have 9: "length ?calls = 1"
    "sum_list (map (change (\<lambda>s. int (row_count (read_group s ''T'')))) ?calls) = 1"
    by (simp_all add: native_defs example_defs storage_defs code_defs calls_defs)
  have 10: "get_cell (snd (create (native (Suc 0)) ctx_T realm_one schema_T ?val True)) (row_T 0) 3
              = CellLink (Some 1)"
    "fst (create (native (Suc 0)) ctx_T realm_one schema_T ?val True) = Inr (object_T 0)"
    by (simp_all add: native_defs example_defs storage_defs code_defs)
  from create_upsert_keeps_other_columns [OF 1 2 3 refl 5 6] 1 2 7 8 9 10
  show ?thesis by simp
qed

text \<open>
  C1 as stated has no such proviso. Here the input omits \<open>''label''\<close>, but its
  \<open>''friend''\<close> is a nested value with the same primary key that carries a label; resolving
  it re-enters \<open>create\<close> on the same row, and the label stored before is overwritten. And
  with a \<open>''friend''\<close> that is a new object of the same type, the call as a whole does add
  a row to the table: the one that the resolution allocates.
\<close>

theorem create_upsert_nested_same_key_counterexample:
  "is_in_transaction realm_one \<and>
   create_find_row (native (Suc 0)) ctx_T realm_one schema_T
     (Dict [(''id'', Integer 1), (''friend'', Dict [(''id'', Integer 1), (''label'', Text ''new'')])])
     True = Inr (Some 0) \<and>
   dict_has_value_for_key (native (Suc 0)) ctx_T
     (Dict [(''id'', Integer 1), (''friend'', Dict [(''id'', Integer 1), (''label'', Text ''new'')])])
     (Property.name prop_label) = Inr False \<and>
   get_cell realm_one (row_T 0) (table_column prop_label) = CellString ''old'' \<and>
   fst (create (native (Suc 0)) ctx_T realm_one schema_T
     (Dict [(''id'', Integer 1), (''friend'', Dict [(''id'', Integer 1), (''label'', Text ''new'')])])
     True) = Inr (object_T 0) \<and>
   get_cell (snd (create (native (Suc 0)) ctx_T realm_one schema_T
     (Dict [(''id'', Integer 1), (''friend'', Dict [(''id'', Integer 1), (''label'', Text ''new'')])])
     True)) (row_T 0) (table_column prop_label) = CellString ''new'' \<and>
   create_find_row (native (Suc 0)) ctx_T realm_one schema_T
     (Dict [(''id'', Integer 1), (''friend'', Dict [(''id'', Integer 2)])]) True = Inr (Some 0) \<and>
   row_count (read_group realm_one ''T'') = 1 \<and>
   row_count (read_group (snd (create (native (Suc 0)) ctx_T realm_one schema_T
     (Dict [(''id'', Integer 1), (''friend'', Dict [(''id'', Integer 2)])]) True)) ''T'') = 2"
  by (simp add: native_defs example_defs storage_defs code_defs)




section \<open>Writing a list of links\<close>










end
